theory Spec2Isabelle
  imports Complex_Main "HOL-Library.Word"
begin

unbundle bit_operations_syntax

section \<open>dns64perf++: the tester of \<^verbatim>\<open>dnstester.cpp\<close>\<close>

text \<open>
  The development follows \<^verbatim>\<open>src/dnstester.cpp\<close>: the query records, the burst
  callback \<^verbatim>\<open>DnsTester::test\<close>, the timer set up and the receive loop of
  \<^verbatim>\<open>DnsTester::start\<close>, the console summary \<^verbatim>\<open>DnsTester::display\<close> and the rows of
  \<^verbatim>\<open>DnsTester::write\<close>.

  Conventions.
  \<^item> \<^verbatim>\<open>uint8_t\<close>, \<^verbatim>\<open>uint16_t\<close>, \<^verbatim>\<open>uint32_t\<close> and \<^verbatim>\<open>uint64_t\<close> are words of that width.
  \<^item> Time points and durations are counts of nanoseconds, of type \<open>int\<close>.
  \<^item> A \<^verbatim>\<open>throw TestException\<close> is the outcome \<open>Thrown\<close>, which keeps the object as the
    throw leaves it. An operation whose behaviour C++ leaves undefined (signed overflow, a
    shift by the width or more, division of integers by zero, an index outside a vector) is
    the outcome \<open>Undefined\<close>: the model promises nothing about it.
  \<^item> The source names its members with a trailing underscore (\<^verbatim>\<open>num_sent_\<close>); the
    fields here drop it.
\<close>

type_synonym u8 = "8 word"
type_synonym u16 = "16 word"
type_synonym u32 = "32 word"
type_synonym u64 = "64 word"

text \<open>The four numbers printed into, and scanned from, the first label of a question.\<close>

type_synonym octets = "u8 \<times> u8 \<times> u8 \<times> u8"

subsection \<open>Exceptions and outcomes\<close>

text \<open>
  One constructor for each \<^verbatim>\<open>throw\<close> of \<^verbatim>\<open>DnsTester::start\<close>, named as the
  specification names them:
  \<^item> \<open>UnexpectedSender\<close>: "Received packet from other host than the DUT" (line 187);
  \<^item> \<open>InvalidAnswer\<close>: "Invalid answer from server, qdcount == 0" (line 193);
  \<^item> \<open>InvalidQuestion\<close>: "Invalid question." (line 202);
  \<^item> \<open>IndexOutOfRange\<close>: "Unexpected FQDN in question: too large." (line 206);
  \<^item> \<open>RecvfromError\<close>: "Error in recvfrom" (line 222);
  \<^item> \<open>MalformedPacket\<close>: the constructor of \<^verbatim>\<open>DNSPacket\<close> (line 190) is outside the
    sources; the specification lets the parser fail with this error on bytes it cannot
    parse.
\<close>

datatype TestException =
    UnexpectedSender
  | InvalidAnswer
  | InvalidQuestion
  | IndexOutOfRange
  | RecvfromError
  | MalformedPacket

datatype 'a outcome = Returned 'a | Thrown TestException 'a | Undefined

subsection \<open>Query records\<close>

record DnsQuery =
  time_sent :: int
  received :: bool
  answered :: bool
  rtt :: int

text \<open>
  \<^verbatim>\<open>DnsQuery::DnsQuery(): received_{false}, answered_{false} {}\<close> (lines 40 to 43).
  The member initialiser list names the two flags only. \<^verbatim>\<open>time_sent_\<close> is a
  \<^verbatim>\<open>time_point\<close>, whose default constructor sets it to the epoch. \<^verbatim>\<open>rtt_\<close> is a
  \<^verbatim>\<open>std::chrono::nanoseconds\<close>, whose default constructor is defaulted and leaves the
  count as the storage holds it: that value is the parameter \<open>junk\<close>.
\<close>

definition DnsQuery_new :: "int \<Rightarrow> DnsQuery" where
  "DnsQuery_new junk = \<lparr>time_sent = 0, received = False, answered = False, rtt = junk\<rparr>"

subsection \<open>The tester object\<close>

text \<open>
  The members of \<^verbatim>\<open>DnsTester\<close> that the modelled functions read or write. \<open>wire\<close> is the
  effect of \<^verbatim>\<open>sendto\<close>: one entry for each datagram handed to the socket, holding the four
  numbers that line 142 prints into the label of the query.
\<close>

record DnsTester =
  server_addr :: "128 word"
  server_port :: u16
  ip :: u32
  netmask :: u8
  num_req :: u32
  num_burst :: u32
  num_sent :: u32
  tests :: "DnsQuery list"
  wire :: "octets list"

text \<open>
  The constructor (lines 45 to 132), without the socket calls and the query template. The
  loop \<^verbatim>\<open>for (int i = 0; i < num_req_; i++) tests_.push_back(DnsQuery{})\<close> counts in an
  \<^verbatim>\<open>int\<close>: with more than \<open>2^31 - 1\<close> requests the increment overflows. \<open>junk i\<close> is what
  the storage of the \<open>i\<close>-th record's \<^verbatim>\<open>rtt_\<close> holds.
\<close>

definition INT_MAX :: nat where
  "INT_MAX = 2147483647"

definition DnsTester_new ::
  "128 word \<Rightarrow> u16 \<Rightarrow> u32 \<Rightarrow> u8 \<Rightarrow> u32 \<Rightarrow> u32 \<Rightarrow> (nat \<Rightarrow> int) \<Rightarrow> DnsTester outcome" where
  "DnsTester_new addr port ip0 nm nreq nburst junk =
     (if INT_MAX < unat nreq then Undefined
      else Returned \<lparr>server_addr = addr, server_port = port, ip = ip0, netmask = nm,
        num_req = nreq, num_burst = nburst, num_sent = 0,
        tests = map (\<lambda>i. DnsQuery_new (junk i)) [0..<unat nreq], wire = []\<rparr>)"

subsection \<open>The burst callback \<^verbatim>\<open>DnsTester::test\<close>\<close>

text \<open>
  Line 142: the arguments of \<^verbatim>\<open>snprintf\<close>,
  \<^verbatim>\<open>(ip >> 24) & 0xff, (ip >> 16) & 0xff, (ip >> 8) & 0xff, ip & 0xff\<close>.
\<close>

definition label_octets :: "u32 \<Rightarrow> octets" where
  "label_octets a =
     (ucast (drop_bit 24 a AND 0xff), ucast (drop_bit 16 a AND 0xff),
      ucast (drop_bit 8 a AND 0xff), ucast (a AND 0xff))"

text \<open>Line 141: \<^verbatim>\<open>uint32_t ip = ip_ | num_sent_\<close>.\<close>

definition query_ip :: "u32 \<Rightarrow> u32 \<Rightarrow> u32" where
  "query_ip base i = base OR i"

text \<open>
  One round of the loop of \<^verbatim>\<open>test\<close> (lines 136 to 153): take the record
  \<^verbatim>\<open>tests_[num_sent_]\<close>, print the address into the label, send, store the time of the
  clock, count. \<open>clock k\<close> is what \<^verbatim>\<open>high_resolution_clock::now()\<close> returns after the
  send of query \<open>k\<close>. A failed \<^verbatim>\<open>sendto\<close> is only logged (line 147) and changes nothing
  else, so it is not a case of its own.
\<close>

definition send_query :: "(nat \<Rightarrow> int) \<Rightarrow> DnsTester \<Rightarrow> DnsTester outcome" where
  "send_query clock s =
     (let n = unat (num_sent s) in
      if length (tests s) \<le> n then Undefined
      else Returned (s\<lparr>tests := (tests s)[n := (tests s ! n)\<lparr>time_sent := clock n\<rparr>],
                      wire := wire s @ [label_octets (query_ip (ip s) (num_sent s))],
                      num_sent := num_sent s + 1\<rparr>))"

fun test_loop :: "nat \<Rightarrow> (nat \<Rightarrow> int) \<Rightarrow> DnsTester \<Rightarrow> DnsTester outcome" where
  "test_loop 0 clock s = Returned s"
| "test_loop (Suc k) clock s =
     (case send_query clock s of
        Returned s' \<Rightarrow> test_loop k clock s'
      | Thrown e s' \<Rightarrow> Thrown e s'
      | Undefined \<Rightarrow> Undefined)"

text \<open>
  \<^verbatim>\<open>for (int i = 0; i < num_burst_; i++)\<close>: \<open>num_burst\<close> rounds; the \<^verbatim>\<open>int\<close> counter
  overflows when the burst size exceeds \<open>INT_MAX\<close>.
\<close>

definition test :: "(nat \<Rightarrow> int) \<Rightarrow> DnsTester \<Rightarrow> DnsTester outcome" where
  "test clock s =
     (if INT_MAX < unat (num_burst s) then Undefined
      else test_loop (unat (num_burst s)) clock s)"

subsection \<open>The timer of \<^verbatim>\<open>DnsTester::start\<close>\<close>

text \<open>
  Modelled from the spec: the class \<^verbatim>\<open>Timer\<close> is declared in a header that is not among
  the sources. The specification takes it as a primitive that "reliably invoke[s] a callback
  at a fixed period a fixed number of times"; the number is the third argument of its
  constructor. \<open>Timer_start n cb\<close> calls \<open>cb\<close> \<open>n\<close> times in a row and stops at the first call
  that does not return.
\<close>

fun Timer_start :: "nat \<Rightarrow> ('s \<Rightarrow> 's outcome) \<Rightarrow> 's \<Rightarrow> 's outcome" where
  "Timer_start 0 cb s = Returned s"
| "Timer_start (Suc n) cb s =
     (case cb s of
        Returned s' \<Rightarrow> Timer_start n cb s'
      | Thrown e s' \<Rightarrow> Thrown e s'
      | Undefined \<Rightarrow> Undefined)"

text \<open>
  Line 159: the number of calls handed to the timer, \<^verbatim>\<open>(size_t) (num_req_ / num_burst_)\<close>,
  a division of two \<^verbatim>\<open>uint32_t\<close>; by zero it is undefined.
\<close>

definition timer_count :: "DnsTester \<Rightarrow> nat option" where
  "timer_count s =
     (if num_burst s = 0 then None else Some (unat (num_req s div num_burst s)))"

text \<open>Lines 159 and 160: everything the timer makes the scheduler do during a run.\<close>

definition start_timer :: "(nat \<Rightarrow> int) \<Rightarrow> DnsTester \<Rightarrow> DnsTester outcome" where
  "start_timer clock s =
     (case timer_count s of
        None \<Rightarrow> Undefined
      | Some n \<Rightarrow> Timer_start n (test clock) s)"

subsection \<open>Answers and the receive loop of \<^verbatim>\<open>DnsTester::start\<close>\<close>

text \<open>
  The classes \<^verbatim>\<open>DNSPacket\<close> and \<^verbatim>\<open>DNSHeader\<close> are declared outside the sources. What
  \<^verbatim>\<open>start\<close> reads of a parsed answer is the record below: the header fields behind
  \<^verbatim>\<open>qdcount()\<close>, \<^verbatim>\<open>qr()\<close>, \<^verbatim>\<open>rcode()\<close>, \<^verbatim>\<open>ancount()\<close>, and the bytes of the first label
  (\<^verbatim>\<open>labels_[0]\<close>, copied into \<^verbatim>\<open>label\<close> by lines 199 and 200). A received datagram
  carries the address and port that \<^verbatim>\<open>recvfrom\<close> reports and the result of parsing its
  bytes, \<open>None\<close> when the parser rejects them.
\<close>

record DNSPacket =
  qdcount :: u16
  qr :: "1 word"
  rcode :: "4 word"
  ancount :: u16
  label0 :: string

record datagram =
  sender_addr :: "128 word"
  sender_port :: u16
  payload :: "DNSPacket option"

text \<open>\<^verbatim>\<open>DNSHeader::RCODE::NoError\<close>, the response code 0 of the DNS header.\<close>

definition NoError :: "4 word" where
  "NoError = 0"

text \<open>
  Line 204: \<^verbatim>\<open>ip = (temp[0] << 24) | (temp[1] << 16) | (temp[2] << 8) | temp[3]\<close>, stored
  in a \<^verbatim>\<open>uint32_t\<close>. The four \<^verbatim>\<open>uint8_t\<close> are promoted to \<^verbatim>\<open>int\<close>; each shifted
  value fits the 32 bits of \<^verbatim>\<open>unsigned int\<close>, and the conversion to \<^verbatim>\<open>uint32_t\<close> gives
  the bits the word operations give.
\<close>

fun answer_ip :: "octets \<Rightarrow> u32" where
  "answer_ip (a, b, c, d) =
     push_bit 24 (ucast a) OR push_bit 16 (ucast b) OR push_bit 8 (ucast c) OR ucast d"

text \<open>
  Line 205 masks with \<^verbatim>\<open>(1 << (32-netmask_))-1\<close>, computed in \<^verbatim>\<open>int\<close>: the shift is
  undefined for a netmask of 0 (a shift by 32) and above 32 (a negative shift), and for a
  netmask of 1 the subtraction overflows (\<open>INT_MIN - 1\<close>). Line 209 masks with
  \<^verbatim>\<open>((uint64_t) 1 << (32-netmask_))-1\<close>, computed in 64 bits: defined for every netmask up
  to 32.
\<close>

definition range_mask :: "u8 \<Rightarrow> u32 option" where
  "range_mask nm =
     (if 2 \<le> unat nm \<and> unat nm \<le> 32 then Some (push_bit (32 - unat nm) 1 - 1) else None)"

definition index_mask :: "u8 \<Rightarrow> u64 option" where
  "index_mask nm =
     (if unat nm \<le> 32 then Some (push_bit (32 - unat nm) 1 - 1) else None)"

text \<open>Line 209: the index into \<^verbatim>\<open>tests_\<close>, \<^verbatim>\<open>ip & (((uint64_t) 1 << (32-netmask_))-1)\<close>.\<close>

definition answer_index :: "u8 \<Rightarrow> u32 \<Rightarrow> nat option" where
  "answer_index nm a = map_option (\<lambda>m. unat (ucast a AND m)) (index_mask nm)"

text \<open>Lines 212, 214 and 216: the three stores into the record, in this order.\<close>

definition mark_received :: "DnsQuery \<Rightarrow> DnsQuery" where
  "mark_received q = q\<lparr>received := True\<rparr>"

definition store_rtt :: "int \<Rightarrow> DnsQuery \<Rightarrow> DnsQuery" where
  "store_rtt time_received q = q\<lparr>rtt := time_received - time_sent q\<rparr>"

definition store_answered :: "DNSPacket \<Rightarrow> DnsQuery \<Rightarrow> DnsQuery" where
  "store_answered a q =
     q\<lparr>answered := (qr a = 1 \<and> rcode a = NoError \<and> 0 < ancount a)\<rparr>"

definition store_answer :: "DNSPacket \<Rightarrow> int \<Rightarrow> DnsQuery \<Rightarrow> DnsQuery" where
  "store_answer a time_received q = store_answered a (store_rtt time_received (mark_received q))"

text \<open>
  Lines 179 to 216, the branch of a received datagram. \<open>scan\<close> stands for
  \<^verbatim>\<open>sscanf(label, dns64_addr_format_string, temp, temp+1, temp+2, temp+3)\<close>: the format
  string is a constant of a header outside the sources, so the scanner is a parameter;
  \<open>scan l = Some os\<close> when \<^verbatim>\<open>sscanf\<close> returns 4 and stores the four numbers \<open>os\<close>.
\<close>

definition on_datagram ::
  "(string \<Rightarrow> octets option) \<Rightarrow> DnsTester \<Rightarrow> datagram \<Rightarrow> int \<Rightarrow> DnsTester outcome" where
  "on_datagram scan s d time_received =
     (if sender_addr d \<noteq> server_addr s \<or> sender_port d \<noteq> server_port s
      then Thrown UnexpectedSender s
      else case payload d of
        None \<Rightarrow> Thrown MalformedPacket s
      | Some a \<Rightarrow>
          if qdcount a < 1 then Thrown InvalidAnswer s
          else case scan (label0 a) of
            None \<Rightarrow> Thrown InvalidQuestion s
          | Some os \<Rightarrow>
              (case range_mask (netmask s) of
                 None \<Rightarrow> Undefined
               | Some m \<Rightarrow>
                   if num_req s \<le> (answer_ip os AND m) then Thrown IndexOutOfRange s
                   else case answer_index (netmask s) (answer_ip os) of
                     None \<Rightarrow> Undefined
                   | Some i \<Rightarrow>
                       if length (tests s) \<le> i then Undefined
                       else Returned
                         (s\<lparr>tests := (tests s)[i := store_answer a time_received (tests s ! i)]\<rparr>)))"

text \<open>
  What a call of \<^verbatim>\<open>recvfrom\<close> hands back (line 178): its return value \<^verbatim>\<open>recvlen\<close>, the
  length of the datagram (0 for an empty one) or -1 when nothing came within the timeout
  or the call failed; whether \<^verbatim>\<open>errno\<close> is \<^verbatim>\<open>EWOULDBLOCK\<close> when line 219 reads it; the
  datagram; and the time read at line 180. A call that returns 0 does not set \<^verbatim>\<open>errno\<close>,
  so line 219 then reads what an earlier call has left.
\<close>

record recvfrom_result =
  recvlen :: int
  errno_EWOULDBLOCK :: bool
  dgram :: datagram
  received_at :: int

text \<open>
  One round of the loop without the test of its end, lines 178 to 224: the datagram is
  looked at only when \<^verbatim>\<open>recvlen > 0\<close>; otherwise only \<^verbatim>\<open>errno\<close> is.
\<close>

definition receive_one ::
  "(string \<Rightarrow> octets option) \<Rightarrow> DnsTester \<Rightarrow> recvfrom_result \<Rightarrow> DnsTester outcome" where
  "receive_one scan s r =
     (if 0 < recvlen r then on_datagram scan s (dgram r) (received_at r)
      else if \<not> errno_EWOULDBLOCK r then Thrown RecvfromError s
      else Returned s)"

text \<open>
  The loop of lines 168 to 225 runs beside the timer. A run is a schedule of events: \<open>Tick\<close>
  is one call of \<^verbatim>\<open>test\<close> by the timer (at most as many as the timer was given), \<open>Recv r\<close>
  is one round of the loop, in which \<^verbatim>\<open>recvfrom\<close> hands back \<open>r\<close>. A round reads
  \<^verbatim>\<open>num_req_ - num_sent_\<close> first; when that is zero the round is the last one. The loop has
  no bound of its own: when the schedule ends before the loop does, the result is \<open>None\<close>.
\<close>

datatype event = Tick | Recv recvfrom_result

fun receive_loop ::
  "(string \<Rightarrow> octets option) \<Rightarrow> (nat \<Rightarrow> int) \<Rightarrow> nat \<Rightarrow> event list \<Rightarrow> DnsTester \<Rightarrow>
    DnsTester outcome option" where
  "receive_loop scan clock ticks [] s = None"
| "receive_loop scan clock 0 (Tick # es) s = receive_loop scan clock 0 es s"
| "receive_loop scan clock (Suc k) (Tick # es) s =
     (case test clock s of
        Returned s' \<Rightarrow> receive_loop scan clock k es s'
      | Thrown e s' \<Rightarrow> Some (Thrown e s')
      | Undefined \<Rightarrow> Some Undefined)"
| "receive_loop scan clock ticks (Recv r # es) s =
     (case receive_one scan s r of
        Returned s' \<Rightarrow>
          if num_req s - num_sent s = 0 then Some (Returned s')
          else receive_loop scan clock ticks es s'
      | Thrown e s' \<Rightarrow> Some (Thrown e s')
      | Undefined \<Rightarrow> Some Undefined)"

definition start ::
  "(string \<Rightarrow> octets option) \<Rightarrow> (nat \<Rightarrow> int) \<Rightarrow> event list \<Rightarrow> DnsTester \<Rightarrow>
    DnsTester outcome option" where
  "start scan clock es s =
     (case timer_count s of
        None \<Rightarrow> Some Undefined
      | Some n \<Rightarrow> receive_loop scan clock n es s)"

subsection \<open>The doubles of \<^verbatim>\<open>DnsTester::display\<close>\<close>

text \<open>
  \<^verbatim>\<open>display\<close> computes in \<^verbatim>\<open>double\<close>. The model keeps the special values of IEEE
  arithmetic, which decide what a division by zero yields, and takes every finite result
  as the exact real number: rounding is not modelled. Zero is the positive zero; every
  divisor in \<^verbatim>\<open>display\<close> is converted from an unsigned integer or is a positive
  constant.
\<close>

datatype double = Fin real | PInf | NInf | NaN

fun dneg :: "double \<Rightarrow> double" where
  "dneg (Fin a) = Fin (- a)"
| "dneg PInf = NInf"
| "dneg NInf = PInf"
| "dneg NaN = NaN"

fun dadd :: "double \<Rightarrow> double \<Rightarrow> double" where
  "dadd (Fin a) (Fin b) = Fin (a + b)"
| "dadd NaN y = NaN"
| "dadd x NaN = NaN"
| "dadd PInf NInf = NaN"
| "dadd NInf PInf = NaN"
| "dadd PInf y = PInf"
| "dadd NInf y = NInf"
| "dadd (Fin a) y = y"

definition dsub :: "double \<Rightarrow> double \<Rightarrow> double" where
  "dsub x y = dadd x (dneg y)"

definition signed_inf :: "real \<Rightarrow> double" where
  "signed_inf a = (if 0 < a then PInf else NInf)"

fun dmul :: "double \<Rightarrow> double \<Rightarrow> double" where
  "dmul (Fin a) (Fin b) = Fin (a * b)"
| "dmul NaN y = NaN"
| "dmul x NaN = NaN"
| "dmul (Fin a) PInf = (if a = 0 then NaN else signed_inf a)"
| "dmul (Fin a) NInf = (if a = 0 then NaN else signed_inf (- a))"
| "dmul PInf (Fin b) = (if b = 0 then NaN else signed_inf b)"
| "dmul NInf (Fin b) = (if b = 0 then NaN else signed_inf (- b))"
| "dmul PInf PInf = PInf"
| "dmul NInf NInf = PInf"
| "dmul PInf NInf = NInf"
| "dmul NInf PInf = NInf"

fun ddiv :: "double \<Rightarrow> double \<Rightarrow> double" where
  "ddiv (Fin a) (Fin b) =
     (if b = 0 then (if a = 0 then NaN else signed_inf a) else Fin (a / b))"
| "ddiv NaN y = NaN"
| "ddiv x NaN = NaN"
| "ddiv (Fin a) y = Fin 0"
| "ddiv PInf (Fin b) = (if b < 0 then NInf else PInf)"
| "ddiv NInf (Fin b) = (if b < 0 then PInf else NInf)"
| "ddiv x y = NaN"

text \<open>\<^verbatim>\<open>pow(x, 2.0)\<close> and \<^verbatim>\<open>sqrt(x)\<close>.\<close>

fun dpow2 :: "double \<Rightarrow> double" where
  "dpow2 (Fin a) = Fin (a * a)"
| "dpow2 NaN = NaN"
| "dpow2 x = PInf"

fun dsqrt :: "double \<Rightarrow> double" where
  "dsqrt (Fin a) = (if a < 0 then NaN else Fin (sqrt a))"
| "dsqrt PInf = PInf"
| "dsqrt x = NaN"

subsection \<open>The console summary \<^verbatim>\<open>DnsTester::display\<close>\<close>

text \<open>
  Lines 229 to 241: \<^verbatim>\<open>uint16_t num_received, num_answered\<close>, both 0, and one increment
  for each record that has the flag.
\<close>

fun count_loop :: "DnsQuery list \<Rightarrow> u16 \<times> u16 \<Rightarrow> u16 \<times> u16" where
  "count_loop [] (nr, na) = (nr, na)"
| "count_loop (q # qs) (nr, na) =
     count_loop qs (if received q then nr + 1 else nr, if answered q then na + 1 else na)"

text \<open>
  Lines 243 to 248: \<^verbatim>\<open>average += (double) query.rtt_.count() / num_received\<close> for each
  received record.
\<close>

fun average_loop :: "DnsQuery list \<Rightarrow> u16 \<Rightarrow> double \<Rightarrow> double" where
  "average_loop [] nr average = average"
| "average_loop (q # qs) nr average =
     average_loop qs nr
       (if received q then dadd average (ddiv (Fin (real_of_int (rtt q))) (Fin (real (unat nr))))
        else average)"

text \<open>
  Lines 250 to 255: \<^verbatim>\<open>standard_deviation += pow(query.rtt_.count() - average, 2.0)\<close> for
  each received record.
\<close>

fun deviation_loop :: "DnsQuery list \<Rightarrow> double \<Rightarrow> double \<Rightarrow> double" where
  "deviation_loop [] average sd = sd"
| "deviation_loop (q # qs) average sd =
     deviation_loop qs average
       (if received q then dadd sd (dpow2 (dsub (Fin (real_of_int (rtt q))) average)) else sd)"

text \<open>
  What the five \<^verbatim>\<open>printf\<close> of lines 258 to 262 are given: the size of the vector, the two
  counters with the values printed as their percentages, the average and the standard
  deviation divided by \<^verbatim>\<open>1000000.0\<close>.
\<close>

record summary =
  sent_queries :: nat
  received_answers :: u16
  received_percent :: double
  valid_answers :: u16
  valid_percent :: double
  average_ms :: double
  deviation_ms :: double

definition display :: "DnsTester \<Rightarrow> summary" where
  "display s =
     (let (num_received, num_answered) = count_loop (tests s) (0, 0);
          average = average_loop (tests s) num_received (Fin 0);
          standard_deviation =
            dsqrt (ddiv (deviation_loop (tests s) average (Fin 0))
                        (Fin (real (unat num_received))));
          size = Fin (real (length (tests s)))
      in \<lparr>sent_queries = length (tests s),
          received_answers = num_received,
          received_percent = dmul (ddiv (Fin (real (unat num_received))) size) (Fin 100),
          valid_answers = num_answered,
          valid_percent = ddiv (Fin (real (unat num_answered))) size,
          average_ms = ddiv average (Fin 1000000),
          deviation_ms = ddiv standard_deviation (Fin 1000000)\<rparr>)"

subsection \<open>The rows of \<^verbatim>\<open>DnsTester::write\<close>\<close>

text \<open>
  Line 295 prints one row for each record: the name of the query, the time of sending, the
  two flags with \<^verbatim>\<open>%d\<close>, and \<^verbatim>\<open>query.rtt_.count()\<close>. The two counts of nanoseconds are
  64-bit signed integers printed with \<^verbatim>\<open>%lu\<close>, that is read as unsigned: a negative
  count appears as the count plus \<open>2^64\<close>. The name is made from the four numbers of
  \<^verbatim>\<open>ip_ | n++\<close> (lines 292 and 293) by the format string and the domain, both constants
  outside the sources; the row keeps the four numbers. Opening the file and the header
  block are not modelled.
\<close>

record row =
  query_octets :: octets
  tsent_ns :: nat
  received_col :: nat
  answered_col :: nat
  rtt_ns :: nat

definition printed_lu :: "int \<Rightarrow> nat" where
  "printed_lu count = nat (count mod 2 ^ 64)"

definition write_row :: "u32 \<Rightarrow> nat \<Rightarrow> DnsQuery \<Rightarrow> row" where
  "write_row base n q =
     \<lparr>query_octets = label_octets (base OR of_nat n), tsent_ns = printed_lu (time_sent q),
      received_col = (if received q then 1 else 0),
      answered_col = (if answered q then 1 else 0),
      rtt_ns = printed_lu (rtt q)\<rparr>"

fun write_loop :: "u32 \<Rightarrow> nat \<Rightarrow> DnsQuery list \<Rightarrow> row list" where
  "write_loop base n [] = []"
| "write_loop base n (q # qs) = write_row base n q # write_loop base (Suc n) qs"

definition write_rows :: "DnsTester \<Rightarrow> row list" where
  "write_rows s = write_loop (ip s) 0 (tests s)"

subsection \<open>Runs and observations\<close>

text \<open>
  The two threads of a run change the object by two operations: one round of the loop of
  \<^verbatim>\<open>test\<close>, and the handling of one received datagram of more than 0 bytes. \<open>run\<close> applies a sequence of
  them, in any interleaving, and stops at the first that does not return.
\<close>

datatype operation = Send | Answer datagram int

definition step ::
  "(string \<Rightarrow> octets option) \<Rightarrow> (nat \<Rightarrow> int) \<Rightarrow> operation \<Rightarrow> DnsTester \<Rightarrow> DnsTester outcome" where
  "step scan clock operation s =
     (case operation of
        Send \<Rightarrow> send_query clock s
      | Answer d t \<Rightarrow> on_datagram scan s d t)"

fun run ::
  "(string \<Rightarrow> octets option) \<Rightarrow> (nat \<Rightarrow> int) \<Rightarrow> operation list \<Rightarrow> DnsTester \<Rightarrow>
    DnsTester outcome" where
  "run scan clock [] s = Returned s"
| "run scan clock (operation # rest) s =
     (case step scan clock operation s of
        Returned s' \<Rightarrow> run scan clock rest s'
      | Thrown e s' \<Rightarrow> Thrown e s'
      | Undefined \<Rightarrow> Undefined)"

text \<open>The flags of a record agree when an answered record is a received one.\<close>

definition flags_agree :: "DnsQuery \<Rightarrow> bool" where
  "flags_agree q \<longleftrightarrow> (answered q \<longrightarrow> received q)"

text \<open>
  A record that is not received still has the \<open>rtt\<close> it was constructed with: a send
  stores the time of sending only, and the handling of an answer marks its record received.
\<close>

definition junk_kept :: "(nat \<Rightarrow> int) \<Rightarrow> DnsTester \<Rightarrow> bool" where
  "junk_kept junk s \<longleftrightarrow>
     (\<forall>i < length (tests s). \<not> received (tests s ! i) \<longrightarrow> rtt (tests s ! i) = junk i)"

text \<open>The members that no modelled member function assigns after construction.\<close>

definition same_setup :: "DnsTester \<Rightarrow> DnsTester \<Rightarrow> bool" where
  "same_setup s s' \<longleftrightarrow>
     server_addr s' = server_addr s \<and> server_port s' = server_port s \<and> ip s' = ip s \<and>
     netmask s' = netmask s \<and> num_req s' = num_req s \<and> num_burst s' = num_burst s \<and>
     length (tests s') = length (tests s)"

text \<open>The number of queries sent when an operation has returned.\<close>

definition sent_of :: "DnsTester outcome \<Rightarrow> nat option" where
  "sent_of r = (case r of Returned s \<Rightarrow> Some (unat (num_sent s)) | _ \<Rightarrow> None)"

subsection \<open>Concrete testers\<close>

text \<open>
  The scenario of the specification: 4 requests in bursts of 2 into \<^verbatim>\<open>192.0.2.0/24\<close>,
  the server at \<^verbatim>\<open>[::1]:53\<close>; as the constructor leaves it, with zeroed storage.
\<close>

definition scenario :: DnsTester where
  "scenario = \<lparr>server_addr = 1, server_port = 53, ip = 0xC0000200, netmask = 24,
     num_req = 4, num_burst = 2, num_sent = 0,
     tests = [DnsQuery_new 0, DnsQuery_new 0, DnsQuery_new 0, DnsQuery_new 0], wire = []\<rparr>"

text \<open>The same with 5 requests: the burst size does not divide the number of requests.\<close>

definition tester_5_2 :: DnsTester where
  "tester_5_2 = \<lparr>server_addr = 1, server_port = 53, ip = 0xC0000200, netmask = 24,
     num_req = 5, num_burst = 2, num_sent = 0,
     tests = [DnsQuery_new 0, DnsQuery_new 0, DnsQuery_new 0, DnsQuery_new 0, DnsQuery_new 0],
     wire = []\<rparr>"

text \<open>
  The scenario after both bursts (sent at 0 and at 1 ms) and the answers to the queries 0
  and 2, which took 10 ms and 20 ms.
\<close>

definition scenario_done :: DnsTester where
  "scenario_done = \<lparr>server_addr = 1, server_port = 53, ip = 0xC0000200, netmask = 24,
     num_req = 4, num_burst = 2, num_sent = 4,
     tests = [\<lparr>time_sent = 0, received = True, answered = True, rtt = 10000000\<rparr>,
              \<lparr>time_sent = 0, received = False, answered = False, rtt = 0\<rparr>,
              \<lparr>time_sent = 1000000, received = True, answered = True, rtt = 20000000\<rparr>,
              \<lparr>time_sent = 1000000, received = False, answered = False, rtt = 0\<rparr>],
     wire = [(192, 0, 2, 0), (192, 0, 2, 1), (192, 0, 2, 2), (192, 0, 2, 3)]\<rparr>"

text \<open>
  One request into \<^verbatim>\<open>192.0.2.0/24\<close>, sent and never answered, whose \<^verbatim>\<open>rtt_\<close> was
  constructed on storage that held 7.
\<close>

definition tester_unanswered :: DnsTester where
  "tester_unanswered = \<lparr>server_addr = 1, server_port = 53, ip = 0xC0000200, netmask = 24,
     num_req = 1, num_burst = 1, num_sent = 1,
     tests = [\<lparr>time_sent = 5, received = False, answered = False, rtt = 7\<rparr>],
     wire = [(192, 0, 2, 0)]\<rparr>"

text \<open>Four requests into \<^verbatim>\<open>0.0.0.0/0\<close>: a netmask of 0.\<close>

definition tester_netmask_0 :: DnsTester where
  "tester_netmask_0 = \<lparr>server_addr = 1, server_port = 53, ip = 0, netmask = 0,
     num_req = 4, num_burst = 2, num_sent = 4,
     tests = [DnsQuery_new 0, DnsQuery_new 0, DnsQuery_new 0, DnsQuery_new 0],
     wire = [(0, 0, 0, 0), (0, 0, 0, 1), (0, 0, 0, 2), (0, 0, 0, 3)]\<rparr>"

text \<open>300 requests into \<^verbatim>\<open>10.1.0.0/16\<close>, all sent at the time 0, none answered yet.\<close>

definition tester_300 :: DnsTester where
  "tester_300 = \<lparr>server_addr = 1, server_port = 53, ip = 0x0A010000, netmask = 16,
     num_req = 300, num_burst = 100, num_sent = 300,
     tests = replicate 300 (DnsQuery_new 0),
     wire = map (\<lambda>k. label_octets (query_ip 0x0A010000 (of_nat k))) [0..<300]\<rparr>"

text \<open>65536 requests, every one received and answered.\<close>

definition tester_65536 :: DnsTester where
  "tester_65536 = \<lparr>server_addr = 1, server_port = 53, ip = 0x0A000000, netmask = 8,
     num_req = 65536, num_burst = 256, num_sent = 65536,
     tests = replicate 65536 \<lparr>time_sent = 0, received = True, answered = True, rtt = 1000\<rparr>,
     wire = []\<rparr>"

text \<open>
  A well-formed answer from the server with the given first label. For the concrete runs
  the scanner is a table over the four labels that occur in them; the clock reads 0
  during the first burst and 1 ms from the second on.
\<close>

definition answer_with :: "string \<Rightarrow> datagram" where
  "answer_with l = \<lparr>sender_addr = 1, sender_port = 53,
     payload = Some \<lparr>qdcount = 1, qr = 1, rcode = 0, ancount = 1, label0 = l\<rparr>\<rparr>"

definition scan_table :: "string \<Rightarrow> octets option" where
  "scan_table l =
     (if l = ''192-000-002-000'' then Some (192, 0, 2, 0)
      else if l = ''192-000-002-002'' then Some (192, 0, 2, 2)
      else if l = ''000-000-000-200'' then Some (0, 0, 0, 200)
      else if l = ''010-001-001-043'' then Some (10, 1, 1, 43)
      else None)"

definition clock_ms :: "nat \<Rightarrow> int" where
  "clock_ms k = (if k < 2 then 0 else 1000000)"




section \<open>Lemmas\<close>

subsection \<open>The scheduler\<close>

lemma send_query_Returned:
  assumes "unat (num_sent s) < length (tests s)" "length (tests s) < 2 ^ 32"
  shows "\<exists>s'. send_query clock s = Returned s' \<and> same_setup s s' \<and>
    unat (num_sent s') = unat (num_sent s) + 1 \<and> length (wire s') = length (wire s) + 1"
proof -
  from assms have "unat (num_sent s) + 1 < 2 ^ 32" by simp
  then have "unat (num_sent s + 1) = unat (num_sent s) + 1"
    by (simp add: unat_word_ariths)
  with assms show ?thesis
    by (simp add: send_query_def Let_def same_setup_def)
qed

lemma test_loop_Returned:
  assumes "unat (num_sent s) + k \<le> length (tests s)" "length (tests s) < 2 ^ 32"
  shows "\<exists>s'. test_loop k clock s = Returned s' \<and> same_setup s s' \<and>
    unat (num_sent s') = unat (num_sent s) + k \<and> length (wire s') = length (wire s) + k"
  using assms
proof (induction k arbitrary: s)
  case 0
  then show ?case by (simp add: same_setup_def)
next
  case (Suc k)
  from Suc.prems obtain s1 where s1: "send_query clock s = Returned s1" "same_setup s s1"
    "unat (num_sent s1) = unat (num_sent s) + 1" "length (wire s1) = length (wire s) + 1"
    using send_query_Returned [of s clock] by auto
  from s1 Suc.prems have "unat (num_sent s1) + k \<le> length (tests s1)"
    "length (tests s1) < 2 ^ 32"
    by (simp_all add: same_setup_def)
  from Suc.IH [OF this] obtain s2 where "test_loop k clock s1 = Returned s2" "same_setup s1 s2"
    "unat (num_sent s2) = unat (num_sent s1) + k" "length (wire s2) = length (wire s1) + k"
    by auto
  with s1 show ?case by (simp add: same_setup_def)
qed

lemma Timer_start_test_Returned:
  assumes "unat (num_sent s) + k * unat (num_burst s) \<le> length (tests s)"
    "length (tests s) < 2 ^ 32" "unat (num_burst s) \<le> INT_MAX"
  shows "\<exists>s'. Timer_start k (test clock) s = Returned s' \<and> same_setup s s' \<and>
    unat (num_sent s') = unat (num_sent s) + k * unat (num_burst s) \<and>
    length (wire s') = length (wire s) + k * unat (num_burst s)"
  using assms
proof (induction k arbitrary: s)
  case 0
  then show ?case by (simp add: same_setup_def)
next
  case (Suc k)
  let ?b = "unat (num_burst s)"
  from Suc.prems have "unat (num_sent s) + ?b \<le> length (tests s)" by simp
  from test_loop_Returned [OF this Suc.prems(2), of clock] Suc.prems(3)
  obtain s1 where s1: "test clock s = Returned s1" "same_setup s s1"
    "unat (num_sent s1) = unat (num_sent s) + ?b" "length (wire s1) = length (wire s) + ?b"
    by (auto simp: test_def)
  from s1 Suc.prems have "unat (num_sent s1) + k * unat (num_burst s1) \<le> length (tests s1)"
    "length (tests s1) < 2 ^ 32" "unat (num_burst s1) \<le> INT_MAX"
    by (simp_all add: same_setup_def)
  from Suc.IH [OF this] obtain s2 where "Timer_start k (test clock) s1 = Returned s2"
    "same_setup s1 s2"
    "unat (num_sent s2) = unat (num_sent s1) + k * unat (num_burst s1)"
    "length (wire s2) = length (wire s1) + k * unat (num_burst s1)"
    by auto
  with s1 show ?case by (simp add: same_setup_def)
qed

lemma timer_count_div:
  "num_burst s \<noteq> 0 \<Longrightarrow> timer_count s = Some (unat (num_req s) div unat (num_burst s))"
  by (simp add: timer_count_def unat_div)

lemma DnsTester_new_Returned:
  "DnsTester_new addr port ip0 nm nreq nburst junk = Returned s \<Longrightarrow>
     length (tests s) = unat (num_req s) \<and> num_sent s = 0 \<and> wire s = [] \<and>
     unat (num_req s) \<le> INT_MAX"
  by (auto simp: DnsTester_new_def split: if_splits)

text \<open>Unfolding the loops at a numeral.\<close>

lemma Timer_start_numeral:
  "Timer_start (numeral k) cb s =
     (case cb s of
        Returned s' \<Rightarrow> Timer_start (pred_numeral k) cb s'
      | Thrown e s' \<Rightarrow> Thrown e s'
      | Undefined \<Rightarrow> Undefined)"
  by (simp add: numeral_eq_Suc)

lemma test_loop_numeral:
  "test_loop (numeral k) clock s =
     (case send_query clock s of
        Returned s' \<Rightarrow> test_loop (pred_numeral k) clock s'
      | Thrown e s' \<Rightarrow> Thrown e s'
      | Undefined \<Rightarrow> Undefined)"
  by (simp add: numeral_eq_Suc)

subsection \<open>Addresses and indices\<close>

lemma mask_0xff: "(0xff :: u32) = mask 8"
  by (simp add: mask_eq_exp_minus_1)

text \<open>Line 204 puts together what line 142 took apart.\<close>

lemma answer_ip_label_octets: "answer_ip (label_octets a) = a"
  unfolding label_octets_def answer_ip.simps mask_0xff
proof (rule bit_word_eqI)
  fix n :: nat
  assume "n < LENGTH(32)"
  then consider "n < 8" | "8 \<le> n" "n < 16" | "16 \<le> n" "n < 24" | "24 \<le> n" "n < 32"
    by fastforce
  then show "bit (push_bit 24 (ucast (ucast (drop_bit 24 a AND mask 8 :: u32) :: u8) :: u32) OR
        push_bit 16 (ucast (ucast (drop_bit 16 a AND mask 8 :: u32) :: u8)) OR
        push_bit 8 (ucast (ucast (drop_bit 8 a AND mask 8 :: u32) :: u8)) OR
        ucast (ucast (a AND mask 8 :: u32) :: u8)) n = bit a n"
    by cases (auto simp: bit_simps)
qed

lemma unat_ucast_u32_u64: "unat (ucast (a :: u32) :: u64) = unat a"
proof -
  have "unat a < 2 ^ 64"
    using unsigned_less [of a, where ?'a = nat] by simp
  then show ?thesis
    by (simp add: unsigned_ucast_eq take_bit_nat_eq_self)
qed

lemma unat_take_bit_word: "unat (take_bit k (w :: 'a::len word)) = unat w mod 2 ^ k"
proof -
  have "unat (take_bit k w) = take_bit k (unat w)"
    by (rule unsigned_take_bit_eq)
  also have "\<dots> = unat w mod 2 ^ k"
    by (rule take_bit_eq_mod)
  finally show ?thesis .
qed

lemma unat_and_low_bits:
  "unat ((w :: 'a::len word) AND (push_bit k 1 - 1)) = unat w mod 2 ^ k"
proof -
  have "(push_bit k 1 - 1 :: 'a word) = mask k"
    by (simp add: mask_eq_exp_minus_1 push_bit_of_1)
  then have "w AND (push_bit k 1 - 1) = take_bit k w"
    by (simp only: take_bit_eq_mask)
  then show ?thesis
    by (simp only: unat_take_bit_word)
qed

lemma answer_index_eq:
  "unat nm \<le> 32 \<Longrightarrow> answer_index nm a = Some (unat a mod 2 ^ (32 - unat nm))"
  by (simp only: answer_index_def index_mask_def unat_and_low_bits unat_ucast_u32_u64
    if_True option.map)

lemma range_mask_eq:
  "range_mask nm = Some m \<Longrightarrow>
     unat nm \<le> 32 \<and> 2 \<le> unat nm \<and> unat (a AND m) = unat a mod 2 ^ (32 - unat nm)"
  by (auto simp only: range_mask_def unat_and_low_bits split: if_splits)

lemma take_bit_query_ip:
  assumes "take_bit k base = 0" "unat i < 2 ^ k"
  shows "unat (query_ip base i) mod 2 ^ k = unat i"
proof -
  have "take_bit k (query_ip base i) = take_bit k i"
    using assms(1) by (simp only: query_ip_def take_bit_or) simp
  then have "unat (take_bit k (query_ip base i)) = unat (take_bit k i)" by (rule arg_cong)
  then have "unat (query_ip base i) mod 2 ^ k = unat i mod 2 ^ k"
    by (simp only: unat_take_bit_word)
  with assms(2) show ?thesis by simp
qed

text \<open>The address of line 204 as a number.\<close>

lemma push_bit_or_low:
  fixes x y :: nat
  assumes "y < 2 ^ n"
  shows "push_bit n x OR y = x * 2 ^ n + y"
proof -
  from assms have y: "take_bit n y = y" by (simp add: take_bit_nat_eq_self)
  have "push_bit n x AND take_bit n y = 0"
    by (rule bit_eqI) (auto simp: bit_simps)
  then have "push_bit n x + y = push_bit n x OR y"
    using y by (simp add: disjunctive_add_eq_or)
  then show ?thesis by (simp add: push_bit_eq_mult)
qed

lemma unat_push_bit_octet:
  assumes "n \<le> 24"
  shows "unat (push_bit n (ucast (a :: u8) :: u32)) = push_bit n (unat a)"
proof -
  have a: "unat a < 2 ^ 8"
    using unsigned_less [of a, where ?'a = nat] by simp
  have "unat a * 2 ^ n < 2 ^ 8 * 2 ^ n"
    using a by simp
  also have "\<dots> = 2 ^ (8 + n)" by (simp add: power_add)
  also have "\<dots> \<le> (2 :: nat) ^ 32"
    using assms by (intro power_increasing) simp_all
  finally have less: "push_bit n (unat a) < 2 ^ 32" by (simp add: push_bit_eq_mult)
  have "unat (ucast a :: u32) = unat a"
    using a by (simp add: unsigned_ucast_eq take_bit_nat_eq_self)
  then have "unat (push_bit n (ucast a :: u32)) = take_bit 32 (push_bit n (unat a))"
    by (simp add: unsigned_push_bit_eq)
  with less show ?thesis by (simp add: take_bit_nat_eq_self)
qed

lemma unat_answer_ip:
  "unat (answer_ip (a, b, c, d)) =
     unat a * 16777216 + unat b * 65536 + unat c * 256 + unat d"
proof -
  have lt: "unat a < 256" "unat b < 256" "unat c < 256" "unat d < 256"
    using unsigned_less [of a, where ?'a = nat] unsigned_less [of b, where ?'a = nat]
      unsigned_less [of c, where ?'a = nat] unsigned_less [of d, where ?'a = nat]
    by simp_all
  have d32: "unat (ucast d :: u32) = unat d"
    using lt(4) by (simp add: unsigned_ucast_eq take_bit_nat_eq_self)
  have "unat (answer_ip (a, b, c, d)) =
      push_bit 24 (unat a) OR (push_bit 16 (unat b) OR (push_bit 8 (unat c) OR unat d))"
    by (simp only: answer_ip.simps unsigned_or_eq unat_push_bit_octet d32)
  also have "push_bit 8 (unat c) OR unat d = unat c * 2 ^ 8 + unat d"
    using lt(4) by (intro push_bit_or_low) simp
  also have "push_bit 16 (unat b) OR (unat c * 2 ^ 8 + unat d) =
      unat b * 2 ^ 16 + (unat c * 2 ^ 8 + unat d)"
    using lt(3,4) by (intro push_bit_or_low) simp
  also have "push_bit 24 (unat a) OR (unat b * 2 ^ 16 + (unat c * 2 ^ 8 + unat d)) =
      unat a * 2 ^ 24 + (unat b * 2 ^ 16 + (unat c * 2 ^ 8 + unat d))"
    using lt(2,3,4) by (intro push_bit_or_low) simp
  finally show ?thesis by simp
qed

subsection \<open>The handling of a datagram\<close>

lemma on_datagram_Thrown: "on_datagram scan s d t = Thrown e s' \<Longrightarrow> s' = s"
  by (auto simp: on_datagram_def split: if_splits option.splits)

lemma on_datagram_Returned:
  assumes "on_datagram scan s d t = Returned s'"
  shows "\<exists>a i. payload d = Some a \<and> i < length (tests s) \<and>
    s' = s\<lparr>tests := (tests s)[i := store_answer a t (tests s ! i)]\<rparr>"
  using assms by (fastforce simp: on_datagram_def not_le split: if_splits option.splits)

text \<open>
  Where the mask of line 205 is defined, that is for a netmask from 2 to 32: an answer
  from the server with a question, whose label scans to the four numbers \<open>a\<close>, \<open>b\<close>, \<open>c\<close>,
  \<open>d\<close> and whose index \<open>(a * 2^24 + b * 2^16 + c * 2^8 + d) mod 2^(32 - netmask)\<close> is below
  \<open>num_req\<close>, is handled without an error, and the tester afterwards is the tester before
  with the record at that index, and nothing else, replaced by itself with
  \<open>received = true\<close>, \<open>rtt\<close> the arrival time minus its \<open>time_sent\<close>, and
  \<open>answered = (QR = 1 \<and> RCODE = NoError \<and> ANCOUNT > 0)\<close>.
\<close>

lemma on_datagram_update:
  fixes s :: DnsTester and a :: DNSPacket and o1 o2 o3 o4 :: u8
  defines "i \<equiv> (unat o1 * 16777216 + unat o2 * 65536 + unat o3 * 256 + unat o4)
    mod 2 ^ (32 - unat (netmask s))"
  assumes "sender_addr d = server_addr s" and "sender_port d = server_port s"
    and "payload d = Some a" and "\<not> qdcount a < 1"
    and "scan (label0 a) = Some (o1, o2, o3, o4)"
    and "2 \<le> unat (netmask s)" and "unat (netmask s) \<le> 32"
    and "i < unat (num_req s)"
    and "length (tests s) = unat (num_req s)"
  shows "on_datagram scan s d t =
      Returned (s\<lparr>tests := (tests s)[i := (tests s ! i)
        \<lparr>received := True, rtt := t - time_sent (tests s ! i),
         answered := (qr a = 1 \<and> rcode a = NoError \<and> 0 < ancount a)\<rparr>]\<rparr>)"
proof -
  let ?ip = "answer_ip (o1, o2, o3, o4)"
  from assms(7,8) obtain m where m: "range_mask (netmask s) = Some m"
    by (simp add: range_mask_def)
  have i: "i = unat ?ip mod 2 ^ (32 - unat (netmask s))"
    by (simp only: i_def unat_answer_ip)
  from range_mask_eq [OF m, of ?ip] i have masked: "unat (?ip AND m) = i"
    by simp
  from assms(8) i have index: "answer_index (netmask s) ?ip = Some i"
    by (simp only: answer_index_eq)
  from masked assms(9) have passes: "\<not> num_req s \<le> (?ip AND m)"
    by (simp add: word_le_nat_alt)
  from assms(9,10) have less: "\<not> length (tests s) \<le> i" by simp
  have "store_answer a t q = q\<lparr>received := True, rtt := t - time_sent q,
      answered := (qr a = 1 \<and> rcode a = NoError \<and> 0 < ancount a)\<rparr>" for q
    by (simp add: store_answer_def store_answered_def store_rtt_def mark_received_def)
  with assms(2-6) m passes index less show ?thesis
    by (simp add: on_datagram_def)
qed

text \<open>
  On the tester with 300 requests into \<^verbatim>\<open>10.1.0.0/16\<close>, the answer that carries
  \<^verbatim>\<open>10.1.1.43\<close> marks the record \<open>1 * 256 + 43 = 299\<close>.
\<close>

lemma on_datagram_update_299:
  "on_datagram scan_table tester_300 (answer_with ''010-001-001-043'') 31000000 =
     Returned (tester_300\<lparr>tests := (tests tester_300)
       [299 := \<lparr>time_sent = 0, received = True, answered = True, rtt = 31000000\<rparr>]\<rparr>)"
proof -
  let ?a = "\<lparr>qdcount = 1, qr = 1, rcode = 0, ancount = 1, label0 = ''010-001-001-043''\<rparr>"
  have i: "(unat (10 :: u8) * 16777216 + unat (1 :: u8) * 65536 + unat (1 :: u8) * 256 +
      unat (43 :: u8)) mod 2 ^ (32 - unat (netmask tester_300)) = 299"
    by (simp add: tester_300_def)
  have r: "tests tester_300 ! 299 = DnsQuery_new 0"
    by (simp add: tester_300_def)
  have "on_datagram scan_table tester_300 (answer_with ''010-001-001-043'') 31000000 =
      Returned (tester_300\<lparr>tests := (tests tester_300)[299 := (tests tester_300 ! 299)
        \<lparr>received := True, rtt := 31000000 - time_sent (tests tester_300 ! 299),
         answered := (qr ?a = 1 \<and> rcode ?a = NoError \<and> 0 < ancount ?a)\<rparr>]\<rparr>)"
    using on_datagram_update [where s = tester_300 and d = "answer_with ''010-001-001-043''"
      and a = ?a and scan = scan_table and ?o1.0 = 10 and ?o2.0 = 1 and ?o3.0 = 1
      and ?o4.0 = 43 and t = 31000000]
    unfolding i
    by (simp add: answer_with_def tester_300_def scan_table_def)
  then show ?thesis
    by (simp add: r DnsQuery_new_def NoError_def)
qed

text \<open>
  Where the mask of line 205 is defined, that is for a netmask from 2 to 32, the check of
  the range raises its error exactly for the indices from \<open>num_req\<close> on.
\<close>

lemma on_datagram_IndexOutOfRange_iff:
  assumes "sender_addr d = server_addr s" "sender_port d = server_port s"
    "payload d = Some a" "\<not> qdcount a < 1" "scan (label0 a) = Some os"
    "2 \<le> unat (netmask s)" "unat (netmask s) \<le> 32"
    "answer_index (netmask s) (answer_ip os) = Some i"
    "length (tests s) = unat (num_req s)"
  shows "on_datagram scan s d t = Thrown IndexOutOfRange s \<longleftrightarrow> unat (num_req s) \<le> i"
    and "(\<exists>s'. on_datagram scan s d t = Thrown IndexOutOfRange s') \<longleftrightarrow> unat (num_req s) \<le> i"
proof -
  let ?k = "32 - unat (netmask s)"
  from assms(6,7) obtain m where m: "range_mask (netmask s) = Some m"
    by (simp add: range_mask_def)
  from range_mask_eq [OF m] have "unat (answer_ip os AND m) = unat (answer_ip os) mod 2 ^ ?k"
    by simp
  moreover from assms(7,8) have "i = unat (answer_ip os) mod 2 ^ ?k"
    by (simp add: answer_index_eq)
  ultimately have le: "num_req s \<le> (answer_ip os AND m) \<longleftrightarrow> unat (num_req s) \<le> i"
    by (simp add: word_le_nat_alt)
  with assms m show "on_datagram scan s d t = Thrown IndexOutOfRange s \<longleftrightarrow> unat (num_req s) \<le> i"
    by (auto simp: on_datagram_def)
  with assms m le show "(\<exists>s'. on_datagram scan s d t = Thrown IndexOutOfRange s') \<longleftrightarrow> unat (num_req s) \<le> i"
    by (auto simp: on_datagram_def)
qed

subsection \<open>The flags of the records\<close>

lemma flags_agree_new: "flags_agree (DnsQuery_new junk)"
  by (simp add: flags_agree_def DnsQuery_new_def)

text \<open>
  The three stores of lines 212 to 216 set \<open>received\<close> first: the flags agree after each
  of them, whatever the record was.
\<close>

lemma flags_agree_stores:
  "flags_agree (mark_received q)"
  "flags_agree (store_rtt t (mark_received q))"
  "flags_agree (store_answer a t q)"
  by (simp_all add: flags_agree_def store_answer_def store_answered_def store_rtt_def
    mark_received_def)

lemma flags_agree_time_sent: "flags_agree q \<Longrightarrow> flags_agree (q\<lparr>time_sent := x\<rparr>)"
  by (simp add: flags_agree_def)

lemma flags_agree_update:
  assumes "\<forall>q \<in> set xs. flags_agree q" "flags_agree x"
  shows "\<forall>q \<in> set (xs[i := x]). flags_agree q"
  using assms set_update_subset_insert [of xs i x] by auto

lemma send_query_flags:
  assumes "\<forall>q \<in> set (tests s). flags_agree q" "send_query clock s = Returned s'"
  shows "\<forall>q \<in> set (tests s'). flags_agree q"
proof -
  let ?n = "unat (num_sent s)"
  from assms(2) have less: "?n < length (tests s)"
    and s': "tests s' = (tests s)[?n := (tests s ! ?n)\<lparr>time_sent := clock ?n\<rparr>]"
    by (auto simp: send_query_def Let_def split: if_splits)
  from assms(1) less have "flags_agree ((tests s ! ?n)\<lparr>time_sent := clock ?n\<rparr>)"
    by (simp add: flags_agree_time_sent)
  with assms(1) show ?thesis
    unfolding s' by (rule flags_agree_update)
qed

lemma on_datagram_flags:
  assumes "\<forall>q \<in> set (tests s). flags_agree q" "on_datagram scan s d t = Returned s'"
  shows "\<forall>q \<in> set (tests s'). flags_agree q"
proof -
  from on_datagram_Returned [OF assms(2)] obtain a i
    where s': "tests s' = (tests s)[i := store_answer a t (tests s ! i)]"
    by auto
  from assms(1) flags_agree_stores(3) show ?thesis
    unfolding s' by (rule flags_agree_update)
qed

lemma step_flags:
  assumes "\<forall>q \<in> set (tests s). flags_agree q" "step scan clock operation s = Returned s'"
  shows "\<forall>q \<in> set (tests s'). flags_agree q"
proof (cases operation)
  case Send
  with assms show ?thesis by (simp add: step_def send_query_flags)
next
  case (Answer d t)
  with assms show ?thesis by (simp add: step_def on_datagram_flags)
qed

lemma run_flags:
  assumes "\<forall>q \<in> set (tests s). flags_agree q" "run scan clock operations s = Returned s'"
  shows "\<forall>q \<in> set (tests s'). flags_agree q"
  using assms
proof (induction operations arbitrary: s)
  case Nil
  then show ?case by simp
next
  case (Cons operation rest)
  from Cons.prems(2) obtain s1 where s1: "step scan clock operation s = Returned s1"
    "run scan clock rest s1 = Returned s'"
    by (auto split: outcome.splits)
  from Cons.prems(1) s1(1) have "\<forall>q \<in> set (tests s1). flags_agree q"
    by (rule step_flags)
  from Cons.IH [OF this s1(2)] show ?case .
qed

lemma DnsTester_new_flags:
  assumes "DnsTester_new addr port ip0 nm nreq nburst junk = Returned s"
  shows "\<forall>q \<in> set (tests s). flags_agree q"
  using assms by (auto simp: DnsTester_new_def flags_agree_new split: if_splits)

subsection \<open>The concrete runs\<close>

lemma DnsTester_new_scenario:
  "DnsTester_new 1 53 0xC0000200 24 4 2 (\<lambda>i. 0) = Returned scenario"
proof -
  have "[0..<unat (4 :: u32)] = [0, 1, 2, 3]"
    by (simp add: upt_conv_Cons)
  then show ?thesis
    by (simp add: DnsTester_new_def scenario_def INT_MAX_def)
qed

lemma DnsTester_new_tester_5_2:
  "DnsTester_new 1 53 0xC0000200 24 5 2 (\<lambda>i. 0) = Returned tester_5_2"
proof -
  have "[0..<unat (5 :: u32)] = [0, 1, 2, 3, 4]"
    by (simp add: upt_conv_Cons)
  then show ?thesis
    by (simp add: DnsTester_new_def tester_5_2_def INT_MAX_def)
qed

lemma run_scenario:
  "run scan_table clock_ms
     [Send, Send, Answer (answer_with ''192-000-002-000'') 10000000,
      Send, Send, Answer (answer_with ''192-000-002-002'') 21000000] scenario =
   Returned scenario_done"
  by (simp add: step_def send_query_def on_datagram_def scenario_def scenario_done_def
    answer_with_def scan_table_def clock_ms_def range_mask_def answer_index_def index_mask_def
    store_answer_def store_answered_def store_rtt_def mark_received_def DnsQuery_new_def
    label_octets_def query_ip_def NoError_def Let_def)

subsection \<open>The summary\<close>

lemma count_loop_eq:
  "count_loop xs (nr, na) =
     (nr + of_nat (length (filter received xs)), na + of_nat (length (filter answered xs)))"
  by (induction xs arbitrary: nr na) simp_all

lemma display_counts:
  "received_answers (display s) = of_nat (length (filter received (tests s)))"
  "valid_answers (display s) = of_nat (length (filter answered (tests s)))"
  by (simp_all add: display_def count_loop_eq Let_def)

lemma average_loop_none:
  "\<forall>q \<in> set xs. \<not> received q \<Longrightarrow> average_loop xs nr average = average"
  by (induction xs arbitrary: average) simp_all

lemma deviation_loop_none:
  "\<forall>q \<in> set xs. \<not> received q \<Longrightarrow> deviation_loop xs average sd = sd"
  by (induction xs arbitrary: sd) simp_all

text \<open>
  With no received record the average stays 0, and the standard deviation is the square
  root of \<open>0.0 / 0\<close>.
\<close>

lemma display_none_received:
  assumes "\<forall>q \<in> set (tests s). \<not> received q"
  shows "received_answers (display s) = 0" "average_ms (display s) = Fin 0"
    "deviation_ms (display s) = NaN"
proof -
  from assms have "filter received (tests s) = []"
    by (simp add: filter_empty_conv)
  then have "count_loop (tests s) (0, 0) = (0, of_nat (length (filter answered (tests s))))"
    by (simp add: count_loop_eq)
  with assms show "received_answers (display s) = 0" "average_ms (display s) = Fin 0"
    "deviation_ms (display s) = NaN"
    by (simp_all add: display_def average_loop_none deviation_loop_none Let_def)
qed

subsection \<open>The rows and the storage of the records\<close>

lemma write_loop_nth:
  "i < length qs \<Longrightarrow> write_loop base n qs ! i = write_row base (n + i) (qs ! i)"
proof (induction qs arbitrary: n i)
  case Nil
  then show ?case by simp
next
  case (Cons q qs)
  then show ?case by (cases i) simp_all
qed

lemma length_write_loop: "length (write_loop base n qs) = length qs"
  by (induction qs arbitrary: n) simp_all

text \<open>The row of a record carries the \<open>rtt\<close> of the record, received or not.\<close>

lemma write_rows_rtt:
  "length (write_rows s) = length (tests s)"
  "i < length (tests s) \<Longrightarrow> rtt_ns (write_rows s ! i) = printed_lu (rtt (tests s ! i))"
  by (simp_all add: write_rows_def length_write_loop write_loop_nth write_row_def)

lemma DnsTester_new_junk_kept:
  "DnsTester_new addr port ip0 nm nreq nburst junk = Returned s \<Longrightarrow> junk_kept junk s"
  by (auto simp: DnsTester_new_def junk_kept_def DnsQuery_new_def split: if_splits)

lemma junk_kept_update:
  assumes "junk_kept junk s" "tests s' = (tests s)[n := q]"
    "received q \<or> (rtt q = rtt (tests s ! n) \<and> received q = received (tests s ! n))"
  shows "junk_kept junk s'"
  unfolding junk_kept_def
proof (intro allI impI)
  fix i
  assume i: "i < length (tests s')" and unreceived: "\<not> received (tests s' ! i)"
  show "rtt (tests s' ! i) = junk i"
  proof (cases "i = n")
    case True
    with i unreceived assms show ?thesis
      by (auto simp: junk_kept_def)
  next
    case False
    with i unreceived assms(1,2) show ?thesis
      by (simp add: junk_kept_def)
  qed
qed

lemma step_junk_kept:
  assumes "junk_kept junk s" "step scan clock operation s = Returned s'"
  shows "junk_kept junk s'"
proof (cases operation)
  case Send
  with assms(2) have "send_query clock s = Returned s'" by (simp add: step_def)
  then have "tests s' = (tests s)[unat (num_sent s) :=
      (tests s ! unat (num_sent s))\<lparr>time_sent := clock (unat (num_sent s))\<rparr>]"
    by (auto simp: send_query_def Let_def split: if_splits)
  with assms(1) show ?thesis
    by (rule junk_kept_update) simp
next
  case (Answer d t)
  with assms(2) have "on_datagram scan s d t = Returned s'" by (simp add: step_def)
  from on_datagram_Returned [OF this] obtain a i
    where "tests s' = (tests s)[i := store_answer a t (tests s ! i)]"
    by auto
  with assms(1) show ?thesis
    by (rule junk_kept_update)
      (simp add: store_answer_def store_answered_def store_rtt_def mark_received_def)
qed

lemma run_junk_kept:
  assumes "junk_kept junk s" "run scan clock operations s = Returned s'"
  shows "junk_kept junk s'"
  using assms
proof (induction operations arbitrary: s)
  case Nil
  then show ?case by simp
next
  case (Cons operation rest)
  from Cons.prems(2) obtain s1 where s1: "step scan clock operation s = Returned s1"
    "run scan clock rest s1 = Returned s'"
    by (auto split: outcome.splits)
  from Cons.prems(1) s1(1) have "junk_kept junk s1" by (rule step_junk_kept)
  from Cons.IH [OF this s1(2)] show ?case .
qed

text \<open>
  Hence, after any run on a constructed tester, the row of a record that is not received
  shows what the storage of its \<^verbatim>\<open>rtt_\<close> held at construction, as \<^verbatim>\<open>%lu\<close> prints it.
\<close>

lemma unreceived_row_shows_junk:
  assumes "DnsTester_new addr port ip0 nm nreq nburst junk = Returned s0"
    "run scan clock operations s0 = Returned s"
    "i < length (tests s)" "\<not> received (tests s ! i)"
  shows "rtt_ns (write_rows s ! i) = printed_lu (junk i)"
proof -
  from assms(1) have "junk_kept junk s0" by (rule DnsTester_new_junk_kept)
  from this assms(2) have "junk_kept junk s" by (rule run_junk_kept)
  with assms(3,4) show ?thesis
    by (simp add: write_rows_rtt junk_kept_def)
qed

subsection \<open>The summary of the scenario\<close>

text \<open>
  The scenario of the specification, two answers after 10 ms and 20 ms: the average is
  15 ms and the standard deviation 5 ms.
\<close>

lemma display_scenario_done:
  "average_ms (display scenario_done) = Fin 15"
  "deviation_ms (display scenario_done) = Fin 5"
proof -
  have "sqrt 25000000000000 = sqrt (5000000\<^sup>2)" by simp
  also have "\<dots> = 5000000" by simp
  finally have root: "sqrt 25000000000000 = 5000000" .
  show "average_ms (display scenario_done) = Fin 15"
    by (simp add: display_def scenario_done_def Let_def)
  show "deviation_ms (display scenario_done) = Fin 5"
    by (simp add: display_def scenario_done_def Let_def dsub_def root)
qed

section \<open>The claims\<close>

subsection \<open>C1: the bursts of the scheduler\<close>

text \<open>
  C1 as the specification states it: the callback runs \<open>ceil(num_requests / burst_size)\<close>
  times and the queries sent add up to \<open>num_requests\<close>, the last burst being a partial one.
  With 5 requests in bursts of 2 the timer of line 159 is given \<open>5 / 2 = 2\<close> calls, not 3,
  and the run sends 4 queries, not 5.
\<close>

theorem C1_counterexample:
  "timer_count tester_5_2 \<noteq>
     Some ((unat (num_req tester_5_2) + unat (num_burst tester_5_2) - 1)
            div unat (num_burst tester_5_2)) \<and>
   timer_count tester_5_2 = Some 2 \<and>
   sent_of (start_timer int tester_5_2) = Some 4 \<and>
   sent_of (start_timer int tester_5_2) \<noteq> Some (unat (num_req tester_5_2))"
  by (simp add: start_timer_def timer_count_def tester_5_2_def sent_of_def test_def INT_MAX_def
    send_query_def Let_def Timer_start_numeral test_loop_numeral)

text \<open>
  C1, amended: for a burst size between 1 and \<open>INT_MAX\<close>, on the object as the constructor
  leaves it, the timer is given \<open>num_requests div burst_size\<close> calls (the quotient rounded
  down); after \<open>k\<close> of them exactly \<open>k * burst_size\<close> queries are sent, so every call sends
  exactly \<open>burst_size\<close> queries; the run of the timer returns with
  \<open>(num_requests div burst_size) * burst_size\<close> queries sent; and that total is
  \<open>num_requests\<close> exactly when the burst size divides the number of requests.
\<close>

theorem C1_bursts:
  assumes "num_burst s \<noteq> 0" and "unat (num_burst s) \<le> INT_MAX"
    and "length (tests s) = unat (num_req s)" and "num_sent s = 0" and "wire s = []"
  shows "timer_count s = Some (unat (num_req s) div unat (num_burst s)) \<and>
    (\<forall>k \<le> unat (num_req s) div unat (num_burst s).
       \<exists>s'. Timer_start k (test clock) s = Returned s' \<and>
         unat (num_sent s') = k * unat (num_burst s) \<and>
         length (wire s') = k * unat (num_burst s)) \<and>
    sent_of (start_timer clock s) =
      Some (unat (num_req s) div unat (num_burst s) * unat (num_burst s)) \<and>
    (sent_of (start_timer clock s) = Some (unat (num_req s)) \<longleftrightarrow>
       unat (num_burst s) dvd unat (num_req s))"
proof -
  let ?n = "unat (num_req s)" and ?b = "unat (num_burst s)"
  have count: "timer_count s = Some (?n div ?b)"
    using assms(1) by (rule timer_count_div)
  have small: "length (tests s) < 2 ^ 32"
    using assms(3) unsigned_less [of "num_req s", where ?'a = nat] by simp
  have ticks: "\<exists>s'. Timer_start k (test clock) s = Returned s' \<and>
      unat (num_sent s') = k * ?b \<and> length (wire s') = k * ?b" if "k \<le> ?n div ?b" for k
  proof -
    from that have "k * ?b \<le> ?n div ?b * ?b" by simp
    also have "\<dots> \<le> ?n" by simp
    finally have "unat (num_sent s) + k * ?b \<le> length (tests s)"
      using assms(3,4) by simp
    from Timer_start_test_Returned [OF this small assms(2), of clock] assms(4,5)
    show ?thesis by auto
  qed
  from ticks [of "?n div ?b"] count
  have total: "sent_of (start_timer clock s) = Some (?n div ?b * ?b)"
    by (auto simp: start_timer_def sent_of_def)
  have "?n div ?b * ?b = ?n \<longleftrightarrow> ?b dvd ?n"
    by (metis dvd_div_mult_self dvd_triv_right)
  with count ticks total show ?thesis by simp
qed

theorem C1_bursts_witness:
  "num_burst scenario \<noteq> 0 \<and> unat (num_burst scenario) \<le> INT_MAX \<and>
   length (tests scenario) = unat (num_req scenario) \<and> num_sent scenario = 0 \<and>
   wire scenario = [] \<and>
   timer_count scenario = Some 2 \<and> sent_of (start_timer int scenario) = Some 4"
proof -
  have h: "num_burst scenario \<noteq> 0" "unat (num_burst scenario) \<le> INT_MAX"
    "length (tests scenario) = unat (num_req scenario)" "num_sent scenario = 0"
    "wire scenario = []"
    by (simp_all add: scenario_def INT_MAX_def)
  have "unat (num_req scenario) = 4" "unat (num_burst scenario) = 2"
    by (simp_all add: scenario_def)
  with C1_bursts [OF h, of int] h show ?thesis by simp
qed

subsection \<open>C2: the summary without a received record\<close>

text \<open>
  C2 on the scenario before any answer has come in: no record is received, the counter of
  line 236 is 0 and the average is 0; line 256 divides the sum 0 by the counter, and the
  standard deviation that \<^verbatim>\<open>display\<close> prints is not 0 but the square root of
  \<open>0.0 / 0\<close>, not a number.
\<close>

theorem C2_no_answers:
  "filter received (tests scenario) = [] \<and>
   received_answers (display scenario) = 0 \<and>
   average_ms (display scenario) = Fin 0 \<and>
   deviation_ms (display scenario) = NaN \<and>
   deviation_ms (display scenario) \<noteq> Fin 0"
  by (simp add: display_def scenario_def DnsQuery_new_def Let_def)

subsection \<open>C3: from the index to the address and back\<close>

text \<open>
  C3 as the specification states it: for \<open>num_requests \<le> 2^(32 - netmask)\<close> and an index
  below \<open>num_requests\<close>, the address \<open>base_ip | i\<close> decodes to \<open>i\<close>. The constructor takes
  any base address (line 46): with the base \<^verbatim>\<open>192.0.2.1\<close>, a netmask of 24 and 4 requests,
  the indices 0 and 1 both decode to 1.
\<close>

theorem C3_counterexample:
  "unat (4 :: u32) \<le> 2 ^ (32 - unat (24 :: u8)) \<and> (0 :: u32) < 4 \<and>
   answer_index 24 (answer_ip (label_octets (query_ip 0xC0000201 0))) = Some 1 \<and>
   answer_index 24 (answer_ip (label_octets (query_ip 0xC0000201 0))) \<noteq> Some (unat (0 :: u32)) \<and>
   answer_index 24 (answer_ip (label_octets (query_ip 0xC0000201 1))) = Some 1"
  by (simp add: answer_ip_label_octets answer_index_eq query_ip_def)

text \<open>
  C3, amended: for a netmask of at most 32, a base address whose low \<open>32 - netmask\<close> bits
  are zero, \<open>num_requests \<le> 2^(32 - netmask)\<close> and an index \<open>i\<close> below \<open>num_requests\<close>: the
  four numbers printed for \<open>base_ip | i\<close> (lines 141 and 142), put together again (line
  204) and masked to the low \<open>32 - netmask\<close> bits (line 209), give \<open>i\<close>; and the address
  of that index is the address that was decoded.
\<close>

theorem C3_roundtrip:
  assumes "unat nm \<le> 32" and "take_bit (32 - unat nm) base = 0"
    and "unat n \<le> 2 ^ (32 - unat nm)" and "i < n"
  shows "answer_index nm (answer_ip (label_octets (query_ip base i))) = Some (unat i) \<and>
    query_ip base (of_nat (unat i)) = answer_ip (label_octets (query_ip base i))"
proof -
  from assms(3,4) have "unat i < 2 ^ (32 - unat nm)"
    by (simp add: word_less_nat_alt)
  with assms(1,2) show ?thesis
    by (simp add: answer_ip_label_octets answer_index_eq take_bit_query_ip)
qed

theorem C3_roundtrip_witness:
  "unat (24 :: u8) \<le> 32 \<and> take_bit (32 - unat (24 :: u8)) (0xC0000200 :: u32) = 0 \<and>
   unat (4 :: u32) \<le> 2 ^ (32 - unat (24 :: u8)) \<and> (2 :: u32) < 4 \<and>
   label_octets (query_ip 0xC0000200 2) = (192, 0, 2, 2) \<and>
   answer_index 24 (answer_ip (192, 0, 2, 2)) = Some 2"
proof -
  have h: "unat (24 :: u8) \<le> 32" "take_bit (32 - unat (24 :: u8)) (0xC0000200 :: u32) = 0"
    "unat (4 :: u32) \<le> 2 ^ (32 - unat (24 :: u8))" "(2 :: u32) < 4"
    by simp_all
  have l: "label_octets (query_ip 0xC0000200 2) = (192, 0, 2, 2)"
    by (simp add: label_octets_def query_ip_def)
  from C3_roundtrip [OF h] h l show ?thesis by simp
qed

subsection \<open>C4: what an accepted answer stores\<close>

text \<open>
  C4 where the mask of line 205 is not defined, that is for a netmask of 0 or 1 (or above
  32): an answer from the server, with a question whose label scans, meets the check of
  the range at a shift or a subtraction in \<^verbatim>\<open>int\<close> that has no defined result, and
  nothing is promised of its handling: not that a record is updated, and not which one.
\<close>

theorem C4_mask_undefined:
  assumes "sender_addr d = server_addr s" and "sender_port d = server_port s"
    and "payload d = Some a" and "\<not> qdcount a < 1" and "scan (label0 a) = Some os"
    and "range_mask (netmask s) = None"
  shows "on_datagram scan s d t = Undefined"
  using assms by (simp add: on_datagram_def)

text \<open>
  At a netmask of 0, on the tester with 4 records: the answer that carries
  \<^verbatim>\<open>10.1.1.43\<close> passes the checks of the sender, of \<^verbatim>\<open>QDCOUNT\<close> and of the question; the
  index that line 209 decodes is \<open>10 * 2^24 + 2^16 + 2^8 + 43 = 167837995\<close>, where the
  vector has no record.
\<close>

theorem C4_mask_undefined_witness:
  "sender_addr (answer_with ''010-001-001-043'') = server_addr tester_netmask_0 \<and>
   sender_port (answer_with ''010-001-001-043'') = server_port tester_netmask_0 \<and>
   payload (answer_with ''010-001-001-043'') =
     Some \<lparr>qdcount = 1, qr = 1, rcode = 0, ancount = 1, label0 = ''010-001-001-043''\<rparr> \<and>
   scan_table ''010-001-001-043'' = Some (10, 1, 1, 43) \<and>
   range_mask (netmask tester_netmask_0) = None \<and>
   answer_index (netmask tester_netmask_0) (answer_ip (10, 1, 1, 43)) = Some 167837995 \<and>
   length (tests tester_netmask_0) = 4 \<and>
   on_datagram scan_table tester_netmask_0 (answer_with ''010-001-001-043'') 9 = Undefined"
proof -
  let ?a = "\<lparr>qdcount = 1, qr = 1, rcode = 0, ancount = 1, label0 = ''010-001-001-043''\<rparr>"
  have h: "sender_addr (answer_with ''010-001-001-043'') = server_addr tester_netmask_0"
    "sender_port (answer_with ''010-001-001-043'') = server_port tester_netmask_0"
    "payload (answer_with ''010-001-001-043'') = Some ?a"
    "\<not> qdcount ?a < 1"
    "scan_table (label0 ?a) = Some (10, 1, 1, 43)"
    "range_mask (netmask tester_netmask_0) = None"
    by (simp_all add: answer_with_def tester_netmask_0_def scan_table_def range_mask_def)
  have i: "answer_index (netmask tester_netmask_0) (answer_ip (10, 1, 1, 43)) = Some 167837995"
    "length (tests tester_netmask_0) = 4"
    by (simp_all add: tester_netmask_0_def answer_index_def index_mask_def)
  from C4_mask_undefined [of "answer_with ''010-001-001-043''" tester_netmask_0 ?a scan_table
      "(10, 1, 1, 43)" 9] h i
  show ?thesis by simp
qed

subsection \<open>C5: an answered record is a received one\<close>

text \<open>
  C5: in the tester as the constructor returns it, every record with \<open>answered\<close> has
  \<open>received\<close>; each operation on the tester, a send of the scheduler or the handling of a
  datagram by the correlator, keeps this so; hence it holds after every sequence of
  operations on a constructed tester, in any interleaving.
\<close>

theorem C5_flags:
  "(DnsTester_new addr port ip0 nm nreq nburst junk = Returned s0 \<longrightarrow>
      (\<forall>q \<in> set (tests s0). answered q \<longrightarrow> received q)) \<and>
   ((\<forall>q \<in> set (tests s). answered q \<longrightarrow> received q) \<and>
    step scan clock operation s = Returned s' \<longrightarrow>
      (\<forall>q \<in> set (tests s'). answered q \<longrightarrow> received q)) \<and>
   (DnsTester_new addr port ip0 nm nreq nburst junk = Returned s0 \<and>
    run scan clock operations s0 = Returned s'' \<longrightarrow>
      (\<forall>q \<in> set (tests s''). answered q \<longrightarrow> received q))"
proof (intro conjI impI)
  assume "DnsTester_new addr port ip0 nm nreq nburst junk = Returned s0"
  then show "\<forall>q \<in> set (tests s0). answered q \<longrightarrow> received q"
    using DnsTester_new_flags by (simp add: flags_agree_def)
next
  assume "(\<forall>q \<in> set (tests s). answered q \<longrightarrow> received q) \<and>
    step scan clock operation s = Returned s'"
  then show "\<forall>q \<in> set (tests s'). answered q \<longrightarrow> received q"
    using step_flags [of s scan clock operation s'] by (simp add: flags_agree_def)
next
  assume "DnsTester_new addr port ip0 nm nreq nburst junk = Returned s0 \<and>
    run scan clock operations s0 = Returned s''"
  then show "\<forall>q \<in> set (tests s''). answered q \<longrightarrow> received q"
    using DnsTester_new_flags [of addr port ip0 nm nreq nburst junk s0]
      run_flags [of s0 scan clock operations s''] by (simp add: flags_agree_def)
qed

theorem C5_flags_witness:
  "DnsTester_new 1 53 0xC0000200 24 4 2 (\<lambda>i. 0) = Returned scenario \<and>
   list_all flags_agree (tests scenario) \<and>
   step scan_table clock_ms Send scenario =
     Returned (scenario\<lparr>tests := (tests scenario)[0 := DnsQuery_new 0],
       wire := [(192, 0, 2, 0)], num_sent := 1\<rparr>) \<and>
   list_all flags_agree (tests (scenario\<lparr>tests := (tests scenario)[0 := DnsQuery_new 0],
       wire := [(192, 0, 2, 0)], num_sent := 1\<rparr>)) \<and>
   run scan_table clock_ms
     [Send, Send, Answer (answer_with ''192-000-002-000'') 10000000,
      Send, Send, Answer (answer_with ''192-000-002-002'') 21000000] scenario =
     Returned scenario_done \<and>
   list_all flags_agree (tests scenario_done)"
proof -
  let ?s1 = "scenario\<lparr>tests := (tests scenario)[0 := DnsQuery_new 0],
       wire := [(192, 0, 2, 0)], num_sent := 1\<rparr>"
  have one: "step scan_table clock_ms Send scenario = Returned ?s1"
    by (simp add: step_def send_query_def scenario_def clock_ms_def DnsQuery_new_def
      label_octets_def query_ip_def Let_def)
  have unfold: "flags_agree = (\<lambda>q. answered q \<longrightarrow> received q)"
    by (simp add: fun_eq_iff flags_agree_def)
  from C5_flags [of 1 53 "0xC0000200" 24 4 2 "\<lambda>i. 0" scenario scenario scan_table clock_ms Send
      ?s1 "[Send, Send, Answer (answer_with ''192-000-002-000'') 10000000,
      Send, Send, Answer (answer_with ''192-000-002-002'') 21000000]" scenario_done]
    DnsTester_new_scenario run_scenario one
  show ?thesis
    by (simp only: list_all_iff unfold simp_thms) blast
qed

subsection \<open>C6: a datagram from another sender\<close>




subsection \<open>C7: the check of the range\<close>

text \<open>
  C7 at a netmask of 0: the tester holds 4 records and the answer carries the address
  \<^verbatim>\<open>0.0.0.200\<close>, whose index, masked in 64 bits as line 209 does, is 200. Line 205 masks
  with \<^verbatim>\<open>(1 << (32-netmask_))-1\<close> in \<^verbatim>\<open>int\<close>, a shift by 32: the check has no defined
  result, and the handling of the answer is not the throw of \<open>IndexOutOfRange\<close>.
\<close>

theorem C7_netmask_0:
  "scan_table ''000-000-000-200'' = Some (0, 0, 0, 200) \<and>
   answer_index (netmask tester_netmask_0) (answer_ip (0, 0, 0, 200)) = Some 200 \<and>
   unat (num_req tester_netmask_0) \<le> 200 \<and>
   range_mask (netmask tester_netmask_0) = None \<and>
   on_datagram scan_table tester_netmask_0 (answer_with ''000-000-000-200'') 9 = Undefined \<and>
   on_datagram scan_table tester_netmask_0 (answer_with ''000-000-000-200'') 9 \<noteq>
     Thrown IndexOutOfRange tester_netmask_0"
  by (simp add: on_datagram_def answer_with_def tester_netmask_0_def scan_table_def
    range_mask_def answer_index_def index_mask_def)

text \<open>The outcome at this input, as the theorem gives it.\<close>

theorem C7_netmask_0_witness:
  "on_datagram scan_table tester_netmask_0 (answer_with ''000-000-000-200'') 9 = Undefined"
  using C7_netmask_0 by (rule conjunct2 [THEN conjunct2, THEN conjunct2, THEN conjunct2, THEN conjunct1])

subsection \<open>C8: the row of a query without an answer\<close>

text \<open>
  C8 on a tester with one request, constructed on storage that holds 7 where the
  \<^verbatim>\<open>rtt_\<close> of the record lies, after its only burst at the time 5 and no answer: the
  record is not received, and its row carries the 7 in the column of the round-trip time,
  not 0. The constructor of the record sets the two flags only, and line 295 prints
  \<^verbatim>\<open>query.rtt_.count()\<close> whether the record is received or not.
\<close>

theorem C8_unanswered_row:
  "(case DnsTester_new 1 53 0xC0000200 24 1 1 (\<lambda>i. 7) of
      Returned s0 \<Rightarrow> start_timer (\<lambda>k. 5) s0
    | r \<Rightarrow> r) = Returned tester_unanswered \<and>
   write_rows tester_unanswered =
     [\<lparr>query_octets = (192, 0, 2, 0), tsent_ns = 5, received_col = 0, answered_col = 0,
       rtt_ns = 7\<rparr>]"
  by (simp add: DnsTester_new_def INT_MAX_def start_timer_def timer_count_def test_def
    send_query_def Let_def DnsQuery_new_def tester_unanswered_def write_rows_def write_row_def printed_lu_def
    label_octets_def query_ip_def)

subsection \<open>C9: the percentage of the valid answers\<close>

text \<open>
  C9 on the scenario of the specification, 2 of 4 queries answered: line 259 multiplies
  the ratio of the received answers by 100 and prints 50; line 260 prints the ratio of the
  valid answers as it is, one half, not 50.
\<close>

theorem C9_valid_percent:
  "sent_queries (display scenario_done) = 4 \<and>
   received_answers (display scenario_done) = 2 \<and>
   received_percent (display scenario_done) = Fin 50 \<and>
   valid_answers (display scenario_done) = 2 \<and>
   valid_percent (display scenario_done) = Fin (1 / 2) \<and>
   valid_percent (display scenario_done) \<noteq> Fin (100 * 2 / 4)"
  by (simp add: display_def scenario_done_def Let_def)

subsection \<open>C10: the counters of the summary\<close>

text \<open>
  C10: the two counts that \<^verbatim>\<open>display\<close> prints are the numbers of received and of
  answered records modulo \<open>2^16\<close>; with more than 65535 received records the printed count
  is not their number.
\<close>

theorem C10_counters:
  "unat (received_answers (display s)) = length (filter received (tests s)) mod 2 ^ 16 \<and>
   unat (valid_answers (display s)) = length (filter answered (tests s)) mod 2 ^ 16 \<and>
   (65535 < length (filter received (tests s)) \<longrightarrow>
      unat (received_answers (display s)) \<noteq> length (filter received (tests s)))"
proof -
  let ?r = "length (filter received (tests s))"
  have r: "unat (received_answers (display s)) = ?r mod 2 ^ 16"
    and a: "unat (valid_answers (display s)) = length (filter answered (tests s)) mod 2 ^ 16"
    by (simp_all add: display_counts unat_of_nat)
  have "?r mod 2 ^ 16 < 65536"
    using mod_less_divisor [of "2 ^ 16" ?r] by simp
  then have "65535 < ?r \<longrightarrow> ?r mod 2 ^ 16 \<noteq> ?r" by linarith
  with r a show ?thesis by simp
qed

theorem C10_counters_witness:
  "65535 < length (filter received (tests tester_65536)) \<and>
   length (filter received (tests tester_65536)) = 65536 \<and>
   received_answers (display tester_65536) = 0 \<and>
   valid_answers (display tester_65536) = 0"
proof -
  have n: "length (filter received (tests tester_65536)) = 65536"
    "length (filter answered (tests tester_65536)) = 65536"
    by (simp_all add: tester_65536_def)
  from C10_counters [of tester_65536] n
  have "unat (received_answers (display tester_65536)) = 0"
    "unat (valid_answers (display tester_65536)) = 0"
    by simp_all
  with n show ?thesis by (simp add: unsigned_eq_0_iff)
qed

end
